theory Spec2Isabelle
  imports Main
begin

section \<open>Python text\<close>

text \<open>
  A Python \<open>str\<close> is a sequence of Unicode code points; it is modelled as a list of
  natural numbers, one per code point.  \<open>py\<close> turns an ASCII literal into such a list.
\<close>

type_synonym pystr = "nat list"

definition py :: "string \<Rightarrow> pystr" where
  "py s = map of_char s"

text \<open>\<open>str.isspace\<close> for one code point: the white-space table of CPython.\<close>

definition isspace :: "nat \<Rightarrow> bool" where
  "isspace c \<longleftrightarrow>
     (9 \<le> c \<and> c \<le> 13) \<or> (28 \<le> c \<and> c \<le> 32) \<or> c = 133 \<or> c = 160 \<or> c = 5760 \<or>
     (8192 \<le> c \<and> c \<le> 8202) \<or> c = 8232 \<or> c = 8233 \<or> c = 8239 \<or> c = 8287 \<or> c = 12288"

text \<open>\<open>s.strip()\<close>: white space removed at both ends.\<close>

definition strip :: "pystr \<Rightarrow> pystr" where
  "strip s = rev (dropWhile isspace (rev (dropWhile isspace s)))"

text \<open>\<open>s.startswith(p)\<close>.\<close>

definition startswith :: "pystr \<Rightarrow> pystr \<Rightarrow> bool" where
  "startswith s p \<longleftrightarrow> take (length p) s = p"

text \<open>
  \<open>s.replace(old, new)\<close>: every occurrence of \<open>old\<close>, found from the left and not
  overlapping, is replaced.  With an empty \<open>old\<close> Python puts \<open>new\<close> before every
  character and at the end.
\<close>

function replace_from :: "pystr \<Rightarrow> pystr \<Rightarrow> pystr \<Rightarrow> pystr" where
  "replace_from old new [] = []"
| "replace_from old new (c # cs) =
     (if old \<noteq> [] \<and> startswith (c # cs) old
      then new @ replace_from old new (drop (length old) (c # cs))
      else c # replace_from old new cs)"
  by pat_completeness auto
termination
  by (relation "measure (\<lambda>(old, new, s). length s)") auto

definition replace :: "pystr \<Rightarrow> pystr \<Rightarrow> pystr \<Rightarrow> pystr" where
  "replace s old new =
     (if old = [] then new @ concat (map (\<lambda>c. c # new) s) else replace_from old new s)"

section \<open>JSON values and \<open>json.loads\<close>\<close>

text \<open>
  The values \<open>json.loads\<close> builds: \<open>None\<close>, \<open>bool\<close>, \<open>int\<close>, \<open>float\<close>, \<open>str\<close>,
  \<open>list\<close> and \<open>dict\<close>.  A float is kept as the literal it was read from (integer part,
  fraction, exponent), or as one of the three constants Python accepts.  A dict is an
  association list with distinct keys, in insertion order.
\<close>

datatype pyfloat = FNum pystr pystr pystr | FNaN | FInfinity | FNegInfinity

datatype json =
    JNull
  | JBool bool
  | JInt int
  | JFloat pyfloat
  | JStr pystr
  | JArr "json list"
  | JObj "(pystr \<times> json) list"

text \<open>
  The exceptions the program can meet, by class.  A \<open>JSONDecodeError\<close> carries which
  message of the decoder it is (the position that Python adds to the message is left out).
\<close>

datatype decode_msg =
    Unterminated_string
  | Invalid_control_character
  | Invalid_uXXXX_escape
  | Invalid_escape
  | Expecting_value
  | Expecting_property_name
  | Expecting_comma_delimiter
  | Expecting_colon_delimiter
  | Extra_data
  | Unexpected_BOM

datatype exn =
    JSONDecodeError decode_msg
  | RecursionError
  | KeyError pystr
  | TypeError string
  | AttributeError string
  | IndexError string
  | ValueError string
  | APIError string

definition is_digit :: "nat \<Rightarrow> bool" where
  "is_digit c \<longleftrightarrow> 48 \<le> c \<and> c \<le> 57"

definition json_ws :: "nat \<Rightarrow> bool" where
  "json_ws c \<longleftrightarrow> c = 32 \<or> c = 9 \<or> c = 10 \<or> c = 13"

definition skip_ws :: "pystr \<Rightarrow> pystr" where
  "skip_ws s = dropWhile json_ws s"

definition hex_digit :: "nat \<Rightarrow> nat option" where
  "hex_digit c =
     (if 48 \<le> c \<and> c \<le> 57 then Some (c - 48)
      else if 65 \<le> c \<and> c \<le> 70 then Some (c - 55)
      else if 97 \<le> c \<and> c \<le> 102 then Some (c - 87)
      else None)"

text \<open>\<open>_decode_uXXXX\<close>: the four hexadecimal digits after \<open>\u\<close>.\<close>

definition decode_uXXXX :: "pystr \<Rightarrow> nat option" where
  "decode_uXXXX s =
     (case map hex_digit (take 4 s) of
        [Some a, Some b, Some c, Some d] \<Rightarrow> Some (((a * 16 + b) * 16 + c) * 16 + d)
      | _ \<Rightarrow> None)"

text \<open>The table \<open>BACKSLASH\<close> of one-letter escapes.\<close>

definition backslash :: "nat \<Rightarrow> nat option" where
  "backslash c =
     (if c = 34 then Some 34 else if c = 92 then Some 92 else if c = 47 then Some 47
      else if c = 98 then Some 8 else if c = 102 then Some 12 else if c = 110 then Some 10
      else if c = 114 then Some 13 else if c = 116 then Some 9 else None)"

text \<open>
  \<open>scanstring\<close> (strict mode): reads a string literal whose opening quote is already
  consumed, and returns the text with what follows the closing quote.  A high surrogate
  followed by an escaped low surrogate becomes one code point.
\<close>

fun scanstring :: "pystr \<Rightarrow> pystr \<Rightarrow> exn + (pystr \<times> pystr)" where
  "scanstring acc [] = Inl (JSONDecodeError Unterminated_string)"
| "scanstring acc (c # cs) =
     (if c = 34 then Inr (rev acc, cs)
      else if c = 92 then
        (case cs of
           [] \<Rightarrow> Inl (JSONDecodeError Unterminated_string)
         | e # es \<Rightarrow>
             if e = 117 then
               (case decode_uXXXX es of
                  None \<Rightarrow> Inl (JSONDecodeError Invalid_uXXXX_escape)
                | Some uni \<Rightarrow>
                    if 55296 \<le> uni \<and> uni \<le> 56319 \<and> startswith (drop 4 es) [92, 117] then
                      (case decode_uXXXX (drop 6 es) of
                         None \<Rightarrow> Inl (JSONDecodeError Invalid_uXXXX_escape)
                       | Some uni2 \<Rightarrow>
                           if 56320 \<le> uni2 \<and> uni2 \<le> 57343
                           then scanstring
                                  ((65536 + (((uni - 55296) * 1024) + (uni2 - 56320))) # acc)
                                  (drop 10 es)
                           else scanstring (uni # acc) (drop 4 es))
                    else scanstring (uni # acc) (drop 4 es))
             else
               (case backslash e of
                  None \<Rightarrow> Inl (JSONDecodeError Invalid_escape)
                | Some ch \<Rightarrow> scanstring (ch # acc) es))
      else if c < 32 then Inl (JSONDecodeError Invalid_control_character)
      else scanstring (c # acc) cs)"

text \<open>
  \<open>NUMBER_RE\<close>: \<open>(-?(?:0|[1-9][0-9]*))(\.[0-9]+)?([eE][-+]?[0-9]+)?\<close>.  Each function
  returns the matched text and the rest.
\<close>

definition match_integer :: "pystr \<Rightarrow> (pystr \<times> pystr) option" where
  "match_integer s =
     (let sign = (if startswith s [45] then [45] else []);
          r = drop (length sign) s
      in case r of
           [] \<Rightarrow> None
         | d # ds \<Rightarrow>
             if d = 48 then Some (sign @ [48], ds)
             else if is_digit d
             then Some (sign @ d # takeWhile is_digit ds, dropWhile is_digit ds)
             else None)"

definition match_frac :: "pystr \<Rightarrow> pystr \<times> pystr" where
  "match_frac s =
     (case s of
        c # d # ds \<Rightarrow>
          if c = 46 \<and> is_digit d
          then (c # d # takeWhile is_digit ds, dropWhile is_digit ds)
          else ([], s)
      | _ \<Rightarrow> ([], s))"

definition match_exp :: "pystr \<Rightarrow> pystr \<times> pystr" where
  "match_exp s =
     (case s of
        [] \<Rightarrow> ([], s)
      | c # r \<Rightarrow>
          if c = 101 \<or> c = 69 then
            (let sign = (if startswith r [45] then [45] else if startswith r [43] then [43] else []);
                 r' = drop (length sign) r
             in case r' of
                  [] \<Rightarrow> ([], s)
                | d # ds \<Rightarrow>
                    if is_digit d
                    then (c # sign @ d # takeWhile is_digit ds, dropWhile is_digit ds)
                    else ([], s))
          else ([], s))"

definition match_number :: "pystr \<Rightarrow> ((pystr \<times> pystr \<times> pystr) \<times> pystr) option" where
  "match_number s =
     (case match_integer s of
        None \<Rightarrow> None
      | Some (i, r1) \<Rightarrow>
          (let (f, r2) = match_frac r1; (e, r3) = match_exp r2 in Some ((i, f, e), r3)))"

text \<open>The value of a run of decimal digits, and \<open>int(text)\<close> for a matched integer.\<close>

definition digits_value :: "pystr \<Rightarrow> nat" where
  "digits_value ds = foldl (\<lambda>n d. 10 * n + (d - 48)) 0 ds"

definition int_of_text :: "pystr \<Rightarrow> int" where
  "int_of_text s =
     (if startswith s [45] then - int (digits_value (drop 1 s))
      else if startswith s [43] then int (digits_value (drop 1 s))
      else int (digits_value s))"

text \<open>\<open>dict(pairs)\<close>: a later pair with the same key replaces the value and keeps the place.\<close>

fun dict_set :: "(pystr \<times> json) list \<Rightarrow> pystr \<Rightarrow> json \<Rightarrow> (pystr \<times> json) list" where
  "dict_set [] k v = [(k, v)]"
| "dict_set ((k', v') # d) k v = (if k' = k then (k, v) # d else (k', v') # dict_set d k v)"

definition dict_of :: "(pystr \<times> json) list \<Rightarrow> (pystr \<times> json) list" where
  "dict_of pairs = foldl (\<lambda>d (k, v). dict_set d k v) [] pairs"

text \<open>
  The scanner (\<open>scan_once\<close>, \<open>JSONArray\<close>, \<open>JSONObject\<close>).  The first argument bounds the
  number of calls on one path; \<open>json_loads\<close> gives twice the length of the text and two,
  which is never used up.  \<open>parse_elements\<close> stands at the start of an array element,
  \<open>parse_members\<close> after the opening quote of a key.
\<close>

fun parse_value :: "nat \<Rightarrow> pystr \<Rightarrow> exn + (json \<times> pystr)"
  and parse_elements :: "nat \<Rightarrow> json list \<Rightarrow> pystr \<Rightarrow> exn + (json \<times> pystr)"
  and parse_members :: "nat \<Rightarrow> (pystr \<times> json) list \<Rightarrow> pystr \<Rightarrow> exn + (json \<times> pystr)"
where
  "parse_value 0 s = Inl RecursionError"
| "parse_value (Suc n) s =
     (case s of
        [] \<Rightarrow> Inl (JSONDecodeError Expecting_value)
      | c # cs \<Rightarrow>
          if c = 34 then
            (case scanstring [] cs of
               Inl e \<Rightarrow> Inl e
             | Inr (str, rest) \<Rightarrow> Inr (JStr str, rest))
          else if c = 123 then
            (case skip_ws cs of
               [] \<Rightarrow> Inl (JSONDecodeError Expecting_property_name)
             | d # ds \<Rightarrow>
                 if d = 125 then Inr (JObj [], ds)
                 else if d = 34 then parse_members n [] ds
                 else Inl (JSONDecodeError Expecting_property_name))
          else if c = 91 then
            (case skip_ws cs of
               [] \<Rightarrow> Inl (JSONDecodeError Expecting_value)
             | d # ds \<Rightarrow>
                 if d = 93 then Inr (JArr [], ds)
                 else parse_elements n [] (d # ds))
          else if startswith s (py ''null'') then Inr (JNull, drop 4 s)
          else if startswith s (py ''true'') then Inr (JBool True, drop 4 s)
          else if startswith s (py ''false'') then Inr (JBool False, drop 5 s)
          else
            (case match_number s of
               Some ((i, f, e), rest) \<Rightarrow>
                 if f = [] \<and> e = [] then Inr (JInt (int_of_text i), rest)
                 else Inr (JFloat (FNum i f e), rest)
             | None \<Rightarrow>
                 if startswith s (py ''NaN'') then Inr (JFloat FNaN, drop 3 s)
                 else if startswith s (py ''Infinity'') then Inr (JFloat FInfinity, drop 8 s)
                 else if startswith s (py ''-Infinity'') then Inr (JFloat FNegInfinity, drop 9 s)
                 else Inl (JSONDecodeError Expecting_value)))"
| "parse_elements 0 acc s = Inl RecursionError"
| "parse_elements (Suc n) acc s =
     (case parse_value n s of
        Inl e \<Rightarrow> Inl e
      | Inr (v, rest) \<Rightarrow>
          (case skip_ws rest of
             [] \<Rightarrow> Inl (JSONDecodeError Expecting_comma_delimiter)
           | d # ds \<Rightarrow>
               if d = 93 then Inr (JArr (acc @ [v]), ds)
               else if d = 44 then parse_elements n (acc @ [v]) (skip_ws ds)
               else Inl (JSONDecodeError Expecting_comma_delimiter)))"
| "parse_members 0 pairs s = Inl RecursionError"
| "parse_members (Suc n) pairs s =
     (case scanstring [] s of
        Inl e \<Rightarrow> Inl e
      | Inr (key, r1) \<Rightarrow>
          (case skip_ws r1 of
             [] \<Rightarrow> Inl (JSONDecodeError Expecting_colon_delimiter)
           | c # r2 \<Rightarrow>
               if c \<noteq> 58 then Inl (JSONDecodeError Expecting_colon_delimiter)
               else
                 (case parse_value n (skip_ws r2) of
                    Inl e \<Rightarrow> Inl e
                  | Inr (v, r3) \<Rightarrow>
                      (case skip_ws r3 of
                         [] \<Rightarrow> Inl (JSONDecodeError Expecting_comma_delimiter)
                       | d # ds \<Rightarrow>
                           if d = 125 then Inr (JObj (dict_of (pairs @ [(key, v)])), ds)
                           else if d = 44 then
                             (case skip_ws ds of
                                [] \<Rightarrow> Inl (JSONDecodeError Expecting_property_name)
                              | q # qs \<Rightarrow>
                                  if q = 34 then parse_members n (pairs @ [(key, v)]) qs
                                  else Inl (JSONDecodeError Expecting_property_name))
                           else Inl (JSONDecodeError Expecting_comma_delimiter)))))"

text \<open>
  \<open>json.loads(s)\<close> for a \<open>str\<close>: a leading byte-order mark is refused, white space
  around the one value is skipped, anything after it is an error.
\<close>

definition json_loads :: "pystr \<Rightarrow> exn + json" where
  "json_loads s =
     (if startswith s [65279] then Inl (JSONDecodeError Unexpected_BOM)
      else
        (case parse_value (Suc (Suc (length s + length s))) (skip_ws s) of
           Inl e \<Rightarrow> Inl e
         | Inr (v, rest) \<Rightarrow>
             if skip_ws rest = [] then Inr v else Inl (JSONDecodeError Extra_data)))"

section \<open>Python's operations on these values\<close>

text \<open>
  Truth value testing.  A float read from the literal \<open>m\<close> times ten to the \<open>ex\<close> is the
  double nearest to it, which is zero exactly when the literal is at most half the
  smallest positive double, two to the -1075.
\<close>

fun float_nonzero :: "pyfloat \<Rightarrow> bool" where
  "float_nonzero (FNum i f e) =
     (let m = digits_value (filter is_digit i @ filter is_digit f);
          ex = (if e = [] then 0 else int_of_text (drop 1 e)) - int (length (filter is_digit f))
      in m \<noteq> 0 \<and> (0 \<le> ex \<or> 10 ^ nat (- ex) < m * 2 ^ 1075))"
| "float_nonzero FNaN = True"
| "float_nonzero FInfinity = True"
| "float_nonzero FNegInfinity = True"

fun truthy :: "json \<Rightarrow> bool" where
  "truthy JNull = False"
| "truthy (JBool b) = b"
| "truthy (JInt i) = (i \<noteq> 0)"
| "truthy (JFloat x) = float_nonzero x"
| "truthy (JStr s) = (s \<noteq> [])"
| "truthy (JArr xs) = (xs \<noteq> [])"
| "truthy (JObj d) = (d \<noteq> [])"

text \<open>\<open>obj[key]\<close> with a \<open>str\<close> key.\<close>

fun subscript :: "json \<Rightarrow> pystr \<Rightarrow> exn + json" where
  "subscript (JObj d) k = (case map_of d k of None \<Rightarrow> Inl (KeyError k) | Some v \<Rightarrow> Inr v)"
| "subscript (JArr xs) k = Inl (TypeError ''list indices must be integers or slices, not str'')"
| "subscript (JStr s) k = Inl (TypeError ''string indices must be integers, not str'')"
| "subscript JNull k = Inl (TypeError ''NoneType object is not subscriptable'')"
| "subscript (JBool b) k = Inl (TypeError ''bool object is not subscriptable'')"
| "subscript (JInt i) k = Inl (TypeError ''int object is not subscriptable'')"
| "subscript (JFloat x) k = Inl (TypeError ''float object is not subscriptable'')"

text \<open>
  What a \<open>for\<close> loop runs over: the items of a list, the keys of a dict, the characters
  of a string; the other values are not iterable.
\<close>

fun py_iter :: "json \<Rightarrow> exn + json list" where
  "py_iter (JArr xs) = Inr xs"
| "py_iter (JObj d) = Inr (map (\<lambda>kv. JStr (fst kv)) d)"
| "py_iter (JStr s) = Inr (map (\<lambda>c. JStr [c]) s)"
| "py_iter JNull = Inl (TypeError ''NoneType object is not iterable'')"
| "py_iter (JBool b) = Inl (TypeError ''bool object is not iterable'')"
| "py_iter (JInt i) = Inl (TypeError ''int object is not iterable'')"
| "py_iter (JFloat x) = Inl (TypeError ''float object is not iterable'')"

text \<open>
  \<open>v.lower()\<close> and \<open>v.upper()\<close> exist on \<open>str\<close> only.  The case mappings of Unicode are
  Python's own and are taken as parameters.
\<close>

fun str_method :: "string \<Rightarrow> (pystr \<Rightarrow> pystr) \<Rightarrow> json \<Rightarrow> exn + pystr" where
  "str_method name f (JStr s) = Inr (f s)"
| "str_method name f JNull = Inl (AttributeError name)"
| "str_method name f (JBool b) = Inl (AttributeError name)"
| "str_method name f (JInt i) = Inl (AttributeError name)"
| "str_method name f (JFloat x) = Inl (AttributeError name)"
| "str_method name f (JArr xs) = Inl (AttributeError name)"
| "str_method name f (JObj d) = Inl (AttributeError name)"

text \<open>\<open>sep.join(xs)\<close>.\<close>

fun join :: "pystr \<Rightarrow> pystr list \<Rightarrow> pystr" where
  "join sep [] = []"
| "join sep [x] = x"
| "join sep (x # y # ys) = x @ sep @ join sep (y # ys)"

text \<open>
  Sequencing of statements that may raise: the first exception ends the sequence.
  \<open>for_each\<close> is a loop whose body may raise.
\<close>

fun and_then :: "exn + 'a \<Rightarrow> ('a \<Rightarrow> exn + 'b) \<Rightarrow> exn + 'b" where
  "and_then (Inl e) f = Inl e"
| "and_then (Inr x) f = f x"

fun for_each :: "('a \<Rightarrow> exn + 'b) \<Rightarrow> 'a list \<Rightarrow> exn + 'b list" where
  "for_each f [] = Inr []"
| "for_each f (x # xs) = and_then (f x) (\<lambda>y. and_then (for_each f xs) (\<lambda>ys. Inr (y # ys)))"

text \<open>\<open>try: body except Exception as e: handler(e)\<close>.\<close>

fun try_except :: "exn + 'a \<Rightarrow> (exn \<Rightarrow> exn + 'a) \<Rightarrow> exn + 'a" where
  "try_except (Inl e) handler = handler e"
| "try_except (Inr x) handler = Inr x"

section \<open>The provider and the two analysis stages\<close>

text \<open>
  A prompt is the fixed template of the stage with its interpolated fields: for the fit
  stage the company, the joined sectors, the joined industries and the services; for the
  pain stage the company, the overview, the industry and the services.  A reply of the
  provider is the list \<open>message.content\<close>, whose blocks have a \<open>text\<close> or not.  The
  provider answers a request knowing the requests made before, or raises.
\<close>

datatype prompt =
    FitPrompt pystr pystr pystr pystr
  | PainPrompt pystr json json pystr

record request =
  api_key :: pystr
  model :: string
  max_tokens :: nat
  content :: prompt

datatype content_block = TextBlock pystr | OtherBlock

type_synonym message = "content_block list"

type_synonym provider = "request list \<Rightarrow> request \<Rightarrow> exn + message"

text \<open>The dict a stage returns: \<open>{success: True, data}\<close> or \<open>{success: False, error}\<close>.\<close>

datatype result = Success json | Failure exn

text \<open>\<open>client.messages.create\<close>: the request is issued, and logged, whatever comes back.\<close>

definition messages_create ::
  "provider \<Rightarrow> request \<Rightarrow> request list \<Rightarrow> (exn + message) \<times> request list" where
  "messages_create p req log = (p log req, log @ [req])"

text \<open>\<open>message.content[0].text.strip()\<close>.\<close>

fun response_text_of :: "message \<Rightarrow> exn + pystr" where
  "response_text_of [] = Inl (IndexError ''list index out of range'')"
| "response_text_of (TextBlock t # bs) = Inr (strip t)"
| "response_text_of (OtherBlock # bs) = Inl (AttributeError ''text'')"

text \<open>
  Lines 251-252 and 330-331: when the text starts with the json fence, every
  occurrence of the json fence and then of the bare fence is deleted, and the text is
  stripped again.
\<close>

definition remove_code_blocks :: "pystr \<Rightarrow> pystr" where
  "remove_code_blocks response_text =
     (if startswith response_text (py ''```json'')
      then strip (replace (replace response_text (py ''```json'') []) (py ''```'') [])
      else response_text)"

text \<open>What follows the provider call inside the \<open>try\<close> of both stages.\<close>

definition decode_reply :: "exn + message \<Rightarrow> exn + result" where
  "decode_reply reply =
     and_then reply (\<lambda>message.
     and_then (response_text_of message) (\<lambda>response_text.
     and_then (json_loads (remove_code_blocks response_text)) (\<lambda>analysis.
     Inr (Success analysis))))"

text \<open>
  The two stages.  The result is \<open>Inr\<close> of the returned dict, or \<open>Inl\<close> of an exception
  that leaves the function; the second component is the log of requests.
\<close>

definition analyze_company_fit ::
  "provider \<Rightarrow> pystr \<Rightarrow> pystr list \<Rightarrow> pystr list \<Rightarrow> pystr \<Rightarrow> pystr \<Rightarrow> request list
     \<Rightarrow> (exn + result) \<times> request list" where
  "analyze_company_fit p company_name target_sectors target_industries our_services key log =
     (let prompt = FitPrompt company_name (join (py '', '') target_sectors)
                     (join (py '', '') target_industries) our_services;
          (reply, log') = messages_create p
             \<lparr>api_key = key, model = ''claude-sonnet-4-20250514'', max_tokens = 2000,
              content = prompt\<rparr> log
      in (try_except (decode_reply reply) (\<lambda>e. Inr (Failure e)), log'))"

definition generate_pain_point_analysis ::
  "provider \<Rightarrow> pystr \<Rightarrow> json \<Rightarrow> json \<Rightarrow> pystr \<Rightarrow> pystr \<Rightarrow> request list
     \<Rightarrow> (exn + result) \<times> request list" where
  "generate_pain_point_analysis p company_name company_overview industry our_services key log =
     (let prompt = PainPrompt company_name company_overview industry our_services;
          (reply, log') = messages_create p
             \<lparr>api_key = key, model = ''claude-sonnet-4-20250514'', max_tokens = 3000,
              content = prompt\<rparr> log
      in (try_except (decode_reply reply) (\<lambda>e. Inr (Failure e)), log'))"

section \<open>The report renderer\<close>

text \<open>
  \<open>generate_pdf_report\<close> builds the list \<open>story\<close> of flowables and hands it to ReportLab,
  which lays the document out and returns its bytes.  A text is the sequence of the
  literal pieces and the interpolated values of its f-string; a spacer carries its height
  in hundredths of an inch.  The paragraph styles and the table style are built from
  constants; the styles are kept by name and the table style belongs to the table.
\<close>

datatype style = title_style | heading_style | subheading_style | normal_style | footer_style

datatype fragment = Lit pystr | Val json

type_synonym markup = "fragment list"

datatype flowable =
    Paragraph markup style
  | Spacer nat
  | PageBreak
  | Table "markup list list"

type_synonym bytes = "nat list"

text \<open>
  The libraries are not part of the program and are parameters: the functions that read
  the clock and map case, and ReportLab.  The constructor of a paragraph parses the markup
  of its text and may raise; so may the constructor of a table, and so may \<open>doc.build\<close>,
  which otherwise leaves the bytes of the document in the buffer.  \<open>paragraph_raises\<close> and
  \<open>table_raises\<close> give the exception of a constructor call, if there is one.
\<close>

record pylib =
  strftime :: "pystr \<Rightarrow> pystr"
  lower :: "pystr \<Rightarrow> pystr"
  upper :: "pystr \<Rightarrow> pystr"
  paragraph_raises :: "markup \<Rightarrow> style \<Rightarrow> exn option"
  table_raises :: "markup list list \<Rightarrow> exn option"
  doc_build :: "flowable list \<Rightarrow> exn + bytes"

fun constructor_raises :: "pylib \<Rightarrow> flowable \<Rightarrow> exn option" where
  "constructor_raises lib (Paragraph m st) = paragraph_raises lib m st"
| "constructor_raises lib (Table rows) = table_raises lib rows"
| "constructor_raises lib (Spacer h) = None"
| "constructor_raises lib PageBreak = None"

definition construct :: "pylib \<Rightarrow> flowable \<Rightarrow> exn + flowable" where
  "construct lib f = (case constructor_raises lib f of None \<Rightarrow> Inr f | Some e \<Rightarrow> Inl e)"

text \<open>
  The body of the function is a sequence of statements \<open>story.append(...)\<close>.  A statement
  first evaluates the arguments of its constructor, which may raise, and so arrives at the
  flowables it asks for; an assignment asks for none.  \<open>run\<close> executes the statements in
  the order of the source: the arguments, then the constructor calls, then the next
  statement; the first exception ends the run.
\<close>

type_synonym statement = "exn + flowable list"

fun run :: "pylib \<Rightarrow> statement list \<Rightarrow> exn + flowable list" where
  "run lib [] = Inr []"
| "run lib (s # ss) =
     and_then s (\<lambda>asked.
     and_then (for_each (construct lib) asked) (\<lambda>made.
     and_then (run lib ss) (\<lambda>rest. Inr (made @ rest))))"

text \<open>
  The statements that follow an assignment \<open>x = m\<close>: when \<open>m\<close> raises there is only this
  exception.  A \<open>for\<close> loop first asks its iterable for the items.
\<close>

definition after :: "exn + 'a \<Rightarrow> ('a \<Rightarrow> statement list) \<Rightarrow> statement list" where
  "after m rest = (case m of Inl e \<Rightarrow> [Inl e] | Inr x \<Rightarrow> rest x)"

definition for_loop :: "exn + json \<Rightarrow> (json list \<Rightarrow> statement list) \<Rightarrow> statement list" where
  "for_loop iterable body = after (and_then iterable py_iter) body"

text \<open>
  \<open>severity_symbol.get(key, default)\<close>: black circle, black up-pointing triangle and
  white circle for high, medium and low, the bullet otherwise.
\<close>

definition severity_symbol :: "pystr \<Rightarrow> pystr" where
  "severity_symbol k =
     (if k = py ''high'' then [9679]
      else if k = py ''medium'' then [9650]
      else if k = py ''low'' then [9675]
      else [8226])"

text \<open>The body of the loop over the pain points, lines 135-142.\<close>

definition pain_point_statements :: "pylib \<Rightarrow> nat \<times> json \<Rightarrow> statement list" where
  "pain_point_statements lib ip =
     [and_then (subscript (snd ip) (py ''severity'')) (\<lambda>sev.
      and_then (str_method ''lower'' (lower lib) sev) (\<lambda>k.
      and_then (subscript (snd ip) (py ''pain_point'')) (\<lambda>pp.
      Inr [Paragraph [Lit (py ''<b>''), Val (JStr (severity_symbol k)), Lit (py '' Pain Point ''),
                      Val (JInt (int (fst ip))), Lit (py '': ''), Val pp, Lit (py ''</b>'')]
             subheading_style]))),
      and_then (subscript (snd ip) (py ''severity'')) (\<lambda>sev.
      and_then (str_method ''upper'' (upper lib) sev) (\<lambda>up.
      Inr [Paragraph [Lit (py ''<b>Severity:</b> ''), Val (JStr up)] normal_style])),
      and_then (subscript (snd ip) (py ''evidence'')) (\<lambda>ev.
      Inr [Paragraph [Lit (py ''<b>Evidence:</b> ''), Val ev] normal_style]),
      Inr [Spacer 15]]"

text \<open>The body of the loop over the solutions, lines 147-152.\<close>

definition solution_statements :: "nat \<times> json \<Rightarrow> statement list" where
  "solution_statements isol =
     [and_then (subscript (snd isol) (py ''our_solution'')) (\<lambda>sol.
      Inr [Paragraph [Lit (py ''<b>Solution ''), Val (JInt (int (fst isol))), Lit (py '': ''),
                      Val sol, Lit (py ''</b>'')] subheading_style]),
      and_then (subscript (snd isol) (py ''addresses_pain_point'')) (\<lambda>addr.
      Inr [Paragraph [Lit (py ''<b>Addresses:</b> ''), Val addr] normal_style]),
      and_then (subscript (snd isol) (py ''value_proposition'')) (\<lambda>vp.
      Inr [Paragraph [Lit (py ''<b>Value Proposition:</b> ''), Val vp] normal_style]),
      and_then (subscript (snd isol) (py ''implementation_approach'')) (\<lambda>impl.
      Inr [Paragraph [Lit (py ''<b>Implementation Approach:</b> ''), Val impl] normal_style]),
      Inr [Spacer 15]]"

text \<open>The bodies of the loops over the talking points, line 165, and the next steps, lines 173-174.\<close>

definition talking_point_statement :: "json \<Rightarrow> statement" where
  "talking_point_statement point = Inr [Paragraph [Lit [8226, 32], Val point] normal_style]"

definition next_step_statements :: "nat \<times> json \<Rightarrow> statement list" where
  "next_step_statements istep =
     [Inr [Paragraph [Val (JInt (int (fst istep))), Lit (py ''. ''), Val (snd istep)]
             normal_style],
      Inr [Spacer 5]]"

text \<open>The branch \<open>if pain_data:\<close>, lines 132-174.\<close>

definition pain_statements :: "pylib \<Rightarrow> json \<Rightarrow> statement list" where
  "pain_statements lib pain_data =
     [Inr [PageBreak],
      Inr [Paragraph [Lit (py ''Pain Points Analysis'')] heading_style]]
     @ for_loop (subscript pain_data (py ''potential_pain_points'')) (\<lambda>pains.
         concat (map (pain_point_statements lib) (enumerate 1 pains)))
     @ [Inr [Paragraph [Lit (py ''How Can Help'')] heading_style]]
     @ for_loop (subscript pain_data (py ''how_we_can_help'')) (\<lambda>solutions.
         concat (map solution_statements (enumerate 1 solutions)))
     @ [Inr [PageBreak],
        Inr [Paragraph [Lit (py ''Engagement Strategy'')] heading_style]]
     @ after (subscript pain_data (py ''engagement_strategy'')) (\<lambda>strategy.
         [and_then (subscript strategy (py ''primary_contact'')) (\<lambda>contact.
          Inr [Paragraph [Lit (py ''<b>Primary Contact:</b> ''), Val contact] normal_style]),
          and_then (subscript pain_data (py ''estimated_opportunity_value'')) (\<lambda>ov.
          and_then (str_method ''upper'' (upper lib) ov) (\<lambda>ov_up.
          Inr [Paragraph [Lit (py ''<b>Estimated Opportunity Value:</b> ''), Val (JStr ov_up)]
                 normal_style])),
          Inr [Spacer 10],
          Inr [Paragraph [Lit (py ''<b>Key Talking Points:</b>'')] subheading_style]]
         @ for_loop (subscript strategy (py ''key_talking_points'')) (\<lambda>points.
             map talking_point_statement points)
         @ [Inr [Spacer 10],
            and_then (subscript strategy (py ''differentiation_angle'')) (\<lambda>angle.
            Inr [Paragraph [Lit (py ''<b>Differentiation Angle:</b> ''), Val angle]
                   normal_style]),
            Inr [Spacer 20],
            Inr [Paragraph [Lit (py ''Recommended Next Steps'')] heading_style]]
         @ for_loop (subscript pain_data (py ''recommended_next_steps'')) (\<lambda>steps.
             concat (map next_step_statements (enumerate 1 steps))))"

text \<open>Lines 85-128: title, overview, the table of fit metrics, the reasoning.\<close>

definition fit_statements :: "pylib \<Rightarrow> pystr \<Rightarrow> json \<Rightarrow> statement list" where
  "fit_statements lib company_name fit_data =
     [Inr [Paragraph [Lit (py ''Lead Analysis Report'')] title_style],
      Inr [Paragraph [Lit (py ''<b>''), Val (JStr company_name), Lit (py ''</b>'')]
             heading_style],
      Inr [Paragraph [Lit (py ''Generated: ''),
                      Val (JStr (strftime lib (py ''%B %d, %Y at %I:%M %p'')))] normal_style],
      Inr [Spacer 30],
      Inr [Paragraph [Lit (py ''Company Overview'')] heading_style],
      and_then (subscript fit_data (py ''brief_company_overview'')) (\<lambda>overview.
      Inr [Paragraph [Val overview] normal_style]),
      Inr [Spacer 20],
      Inr [Paragraph [Lit (py ''Fit Analysis'')] heading_style],
      and_then (subscript fit_data (py ''industry'')) (\<lambda>industry.
      and_then (subscript fit_data (py ''sector'')) (\<lambda>sector.
      and_then (subscript fit_data (py ''company_size'')) (\<lambda>company_size.
      and_then (subscript fit_data (py ''fit_score'')) (\<lambda>fit_score.
      and_then (subscript fit_data (py ''is_good_fit'')) (\<lambda>is_good_fit.
      Inr [Table [[[Lit (py ''Metric'')], [Lit (py ''Value'')]],
                  [[Lit (py ''Industry'')], [Val industry]],
                  [[Lit (py ''Sector'')], [Val sector]],
                  [[Lit (py ''Company Size'')], [Val company_size]],
                  [[Lit (py ''Fit Score'')], [Val fit_score, Lit (py ''/100'')]],
                  [[Lit (py ''Good Fit?'')],
                   [Lit (if truthy is_good_fit then py ''Yes '' @ [10003]
                         else py ''No '' @ [10007])]]]]))))),
      Inr [Spacer 20],
      Inr [Paragraph [Lit (py ''Fit Assessment Reasoning'')] subheading_style],
      and_then (subscript fit_data (py ''fit_reasoning'')) (\<lambda>fit_reasoning.
      Inr [Paragraph [Val fit_reasoning] normal_style]),
      Inr [Spacer 20]]"

text \<open>Lines 177-186.\<close>

definition footer_statements :: "statement list" where
  "footer_statements =
     [Inr [Spacer 30],
      Inr [Paragraph [Lit (py ''Generated by Lead Generation Agent | Powered by Claude AI'')]
             footer_style]]"

text \<open>
  The statements of \<open>generate_pdf_report(company_name, fit_data, pain_data)\<close>, lines 85-186;
  \<open>None\<close> (the default of \<open>pain_data\<close>) and every falsy value skip the pain sections.
\<close>

definition report_statements :: "pylib \<Rightarrow> pystr \<Rightarrow> json \<Rightarrow> json option \<Rightarrow> statement list" where
  "report_statements lib company_name fit_data pain_data =
     fit_statements lib company_name fit_data
     @ (case pain_data of
          None \<Rightarrow> []
        | Some pd \<Rightarrow> if truthy pd then pain_statements lib pd else [])
     @ footer_statements"

text \<open>
  The function: the statements are run, every constructor called, and the story goes to
  \<open>doc.build\<close> (lines 188-191), whose bytes are returned.
\<close>

definition generate_pdf_report :: "pylib \<Rightarrow> pystr \<Rightarrow> json \<Rightarrow> json option \<Rightarrow> exn + bytes" where
  "generate_pdf_report lib company_name fit_data pain_data =
     and_then (run lib (report_statements lib company_name fit_data pain_data)) (doc_build lib)"

text \<open>
  The flowables the statements ask for, one statement after the other, with no constructor
  called: the exceptions left are those of the subscripts, the iterations and the string
  methods.
\<close>

definition story_of :: "statement list \<Rightarrow> exn + flowable list" where
  "story_of ss = and_then (for_each (\<lambda>s. s) ss) (\<lambda>asked. Inr (concat asked))"

section \<open>The pipeline behind the button and the history\<close>

text \<open>
  One entry of \<open>st.session_state.analysis_history\<close>.  The reader of the history asks
  whether the key \<open>pain_data\<close> is there, so the field is optional.
\<close>

record analysis =
  timestamp :: pystr
  company_name :: pystr
  fit_data :: json
  pain_data :: "json option"

text \<open>What the page holds when the button is pressed: the side bar and the company name.\<close>

record click =
  ui_api_key :: pystr
  ui_company_name :: pystr
  ui_target_sectors :: "pystr list"
  ui_target_industries :: "pystr list"
  ui_our_services :: pystr

text \<open>The session state, and beside it the requests the provider has received.\<close>

record world =
  analysis_history :: "analysis list"
  calls :: "request list"

definition initial_world :: world where
  "initial_world = \<lparr>analysis_history = [], calls = []\<rparr>"

definition append_history :: "analysis \<Rightarrow> world \<Rightarrow> world" where
  "append_history a w = w\<lparr>analysis_history := analysis_history w @ [a]\<rparr>"

text \<open>
  How a press of the button ends: one of the two input errors, the error of a stage, the
  poor-fit warning with the export, the saved analysis with the export, or an exception
  that nothing in the script catches.  An export is the bytes of the report or the error
  shown for it.
\<close>

datatype outcome =
    NoApiKey
  | NoCompanyName
  | FitError exn
  | PainError exn
  | PoorFit "exn + bytes"
  | Saved "exn + bytes"
  | Uncaught exn

text \<open>
  Lines 436-447 show the fit: score, industry, status, overview and reasoning are read in
  this order.  The status, the overview and the industry are read again at lines 450,
  454 and 455, with the same values.
\<close>

definition show_fit :: "json \<Rightarrow> exn + (json \<times> json \<times> json)" where
  "show_fit fd =
     and_then (subscript fd (py ''fit_score'')) (\<lambda>fit_score.
     and_then (subscript fd (py ''industry'')) (\<lambda>industry.
     and_then (subscript fd (py ''is_good_fit'')) (\<lambda>is_good_fit.
     and_then (subscript fd (py ''brief_company_overview'')) (\<lambda>overview.
     and_then (subscript fd (py ''fit_reasoning'')) (\<lambda>fit_reasoning.
     Inr (is_good_fit, overview, industry))))))"

text \<open>
  Lines 469-505 show the pain analysis on the page.  They read the same fields in the same
  order as lines 135-174 of the report and call no constructor of ReportLab, so they raise
  what the arguments of \<open>pain_statements\<close> raise.
\<close>

definition show_pain :: "pylib \<Rightarrow> json \<Rightarrow> exn + unit" where
  "show_pain lib pd = and_then (story_of (pain_statements lib pd)) (\<lambda>shown. Inr ())"

text \<open>Lines 450-552, after the fit has been shown.\<close>

definition second_step ::
  "provider \<Rightarrow> pylib \<Rightarrow> click \<Rightarrow> json \<Rightarrow> json \<times> json \<times> json \<Rightarrow> world \<Rightarrow> outcome \<times> world" where
  "second_step p lib c fd shown w =
     (case shown of (is_good_fit, overview, industry) \<Rightarrow>
        if truthy is_good_fit then
          (case generate_pain_point_analysis p (ui_company_name c) overview industry
                  (ui_our_services c) (ui_api_key c) (calls w) of
             (pain_result, log) \<Rightarrow>
               (case pain_result of
                  Inl e \<Rightarrow> (Uncaught e, w\<lparr>calls := log\<rparr>)
                | Inr (Failure e) \<Rightarrow> (PainError e, w\<lparr>calls := log\<rparr>)
                | Inr (Success pd) \<Rightarrow>
                    (case show_pain lib pd of
                       Inl e \<Rightarrow> (Uncaught e, w\<lparr>calls := log\<rparr>)
                     | Inr u \<Rightarrow>
                         (Saved (generate_pdf_report lib (ui_company_name c) fd (Some pd)),
                          append_history
                            \<lparr>timestamp = strftime lib (py ''%Y-%m-%d %H:%M:%S''),
                             company_name = ui_company_name c,
                             fit_data = fd,
                             pain_data = Some pd\<rparr>
                            (w\<lparr>calls := log\<rparr>)))))
        else (PoorFit (generate_pdf_report lib (ui_company_name c) fd None), w))"

text \<open>Lines 410-552: one press of the button.\<close>

definition analyze_click :: "provider \<Rightarrow> pylib \<Rightarrow> click \<Rightarrow> world \<Rightarrow> outcome \<times> world" where
  "analyze_click p lib c w =
     (if ui_api_key c = [] then (NoApiKey, w)
      else if ui_company_name c = [] then (NoCompanyName, w)
      else
        (case analyze_company_fit p (ui_company_name c) (ui_target_sectors c)
                (ui_target_industries c) (ui_our_services c) (ui_api_key c) (calls w) of
           (fit_result, log) \<Rightarrow>
             (case fit_result of
                Inl e \<Rightarrow> (Uncaught e, w\<lparr>calls := log\<rparr>)
              | Inr (Failure e) \<Rightarrow> (FitError e, w\<lparr>calls := log\<rparr>)
              | Inr (Success fd) \<Rightarrow>
                  (case show_fit fd of
                     Inl e \<Rightarrow> (Uncaught e, w\<lparr>calls := log\<rparr>)
                   | Inr shown \<Rightarrow> second_step p lib c fd shown (w\<lparr>calls := log\<rparr>)))))"

text \<open>A session: the presses of the button one after the other, each with its clock.\<close>

fun session :: "provider \<Rightarrow> (pylib \<times> click) list \<Rightarrow> world \<Rightarrow> world" where
  "session p [] w = w"
| "session p (lc # rest) w = session p rest (snd (analyze_click p (fst lc) (snd lc) w))"

text \<open>Line 560: the history tab runs over \<open>enumerate(reversed(history))\<close>.\<close>

definition history_tab :: "analysis list \<Rightarrow> (nat \<times> analysis) list" where
  "history_tab h = enumerate 0 (rev h)"

section \<open>The invariant of the history\<close>

text \<open>
  Line 450 tests \<open>fit_data['is_good_fit']\<close> with Python's \<open>if\<close>.  A record of the history
  with a pain analysis has a fit assessment whose \<open>is_good_fit\<close> is there and passes this
  test: it is not \<open>false\<close>, and not any other falsy value either.
\<close>

definition truthy_fit_when_pain :: "analysis \<Rightarrow> bool" where
  "truthy_fit_when_pain a =
     (case pain_data a of
        None \<Rightarrow> True
      | Some pd \<Rightarrow>
          (case subscript (fit_data a) (py ''is_good_fit'') of
             Inl e \<Rightarrow> False
           | Inr v \<Rightarrow> truthy v \<and> v \<noteq> JBool False))"

section \<open>Reading a story\<close>






fun is_str :: "json \<Rightarrow> bool" where
  "is_str (JStr s) = True"
| "is_str v = False"










section \<open>Example runs\<close>

text \<open>
  Concrete inputs on which the definitions are evaluated: case mappings for ASCII, a
  fixed clock, one press of the button and a provider that answers each stage with a fixed
  text.
\<close>

definition ascii_lower :: "pystr \<Rightarrow> pystr" where
  "ascii_lower s = map (\<lambda>c. if 65 \<le> c \<and> c \<le> 90 then c + 32 else c) s"

definition ascii_upper :: "pystr \<Rightarrow> pystr" where
  "ascii_upper s = map (\<lambda>c. if 97 \<le> c \<and> c \<le> 122 then c - 32 else c) s"

text \<open>
  A stand-in for ReportLab: it refuses a text that is not a string, and an interpolated
  string with \<open><\<close> or \<open>&\<close> in it; it builds every story.
\<close>

fun plain_fragment :: "fragment \<Rightarrow> bool" where
  "plain_fragment (Val (JStr s)) = (60 \<notin> set s \<and> 38 \<notin> set s)"
| "plain_fragment f = True"

definition example_paragraph_raises :: "markup \<Rightarrow> style \<Rightarrow> exn option" where
  "example_paragraph_raises m st =
     (if \<not> list_all plain_fragment m then Some (ValueError ''markup'')
      else case m of
             [Val v] \<Rightarrow> if is_str v then None else Some (TypeError ''text'')
           | _ \<Rightarrow> None)"

definition example_lib :: pylib where
  "example_lib = \<lparr>strftime = (\<lambda>fmt. py ''2025-01-01''), lower = ascii_lower, upper = ascii_upper,
     paragraph_raises = example_paragraph_raises, table_raises = (\<lambda>rows. None),
     doc_build = (\<lambda>story. Inr (py ''%PDF''))\<rparr>"

definition example_click :: click where
  "example_click = \<lparr>ui_api_key = py ''key'', ui_company_name = py ''Acme SaaS'',
     ui_target_sectors = [py ''Technology'', py ''Retail''], ui_target_industries = [py ''SaaS''],
     ui_our_services = py ''AI''\<rparr>"

definition scripted :: "pystr \<Rightarrow> pystr \<Rightarrow> provider" where
  "scripted fit_reply pain_reply log req =
     (case content req of
        FitPrompt a b c d \<Rightarrow> Inr [TextBlock fit_reply]
      | PainPrompt a b c d \<Rightarrow> Inr [TextBlock pain_reply])"

definition good_fit_reply :: pystr where
  \<open>good_fit_reply = py ''{"company_name":"Acme SaaS","industry":"Software","sector":"Technology","company_size":"50-200","is_good_fit":true,"fit_score":82,"fit_reasoning":"...","brief_company_overview":"..."}''\<close>

definition poor_fit_reply :: pystr where
  \<open>poor_fit_reply = py ''{"company_name":"Acme SaaS","industry":"Software","sector":"Technology","company_size":"50-200","is_good_fit":false,"fit_score":20,"fit_reasoning":"...","brief_company_overview":"..."}''\<close>

definition pain_reply :: pystr where
  \<open>pain_reply = py ''{"potential_pain_points":[{"pain_point":"churn","severity":"high","evidence":"reviews"}],"how_we_can_help":[{"our_solution":"AI","addresses_pain_point":"churn","value_proposition":"retention","implementation_approach":"pilot"}],"engagement_strategy":{"primary_contact":"CTO","key_talking_points":["a","b"],"differentiation_angle":"speed"},"estimated_opportunity_value":"medium","recommended_next_steps":["call"]}''\<close>

definition fit_record :: "bool \<Rightarrow> int \<Rightarrow> json" where
  "fit_record good score =
     JObj [(py ''company_name'', JStr (py ''Acme SaaS'')),
           (py ''industry'', JStr (py ''Software'')),
           (py ''sector'', JStr (py ''Technology'')),
           (py ''company_size'', JStr (py ''50-200'')),
           (py ''is_good_fit'', JBool good),
           (py ''fit_score'', JInt score),
           (py ''fit_reasoning'', JStr (py ''...'')),
           (py ''brief_company_overview'', JStr (py ''...''))]"

definition pain_record :: json where
  "pain_record =
     JObj [(py ''potential_pain_points'',
              JArr [JObj [(py ''pain_point'', JStr (py ''churn'')),
                          (py ''severity'', JStr (py ''high'')),
                          (py ''evidence'', JStr (py ''reviews''))]]),
           (py ''how_we_can_help'',
              JArr [JObj [(py ''our_solution'', JStr (py ''AI'')),
                          (py ''addresses_pain_point'', JStr (py ''churn'')),
                          (py ''value_proposition'', JStr (py ''retention'')),
                          (py ''implementation_approach'', JStr (py ''pilot''))]]),
           (py ''engagement_strategy'',
              JObj [(py ''primary_contact'', JStr (py ''CTO'')),
                    (py ''key_talking_points'', JArr [JStr (py ''a''), JStr (py ''b'')]),
                    (py ''differentiation_angle'', JStr (py ''speed''))]),
           (py ''estimated_opportunity_value'', JStr (py ''medium'')),
           (py ''recommended_next_steps'', JArr [JStr (py ''call'')])]"

text \<open>A fit reply whose \<open>is_good_fit\<close> is the string \<open>false\<close>, and the record it parses to.\<close>

definition string_false_reply :: pystr where
  \<open>string_false_reply = py ''{"company_name":"Acme SaaS","industry":"Software","sector":"Technology","company_size":"50-200","is_good_fit":"false","fit_score":20,"fit_reasoning":"...","brief_company_overview":"..."}''\<close>

definition string_false_record :: json where
  "string_false_record =
     JObj [(py ''company_name'', JStr (py ''Acme SaaS'')),
           (py ''industry'', JStr (py ''Software'')),
           (py ''sector'', JStr (py ''Technology'')),
           (py ''company_size'', JStr (py ''50-200'')),
           (py ''is_good_fit'', JStr (py ''false'')),
           (py ''fit_score'', JInt 20),
           (py ''fit_reasoning'', JStr (py ''...'')),
           (py ''brief_company_overview'', JStr (py ''...''))]"

definition saved_analysis :: analysis where
  "saved_analysis = \<lparr>timestamp = py ''2025-01-01'', company_name = py ''Acme SaaS'',
     fit_data = fit_record True 82, pain_data = Some pain_record\<rparr>"

text \<open>
  A reply fenced with the bare marker, the json fence around a text, and a reply with the
  marker inside a JSON string.
\<close>

definition bare_fenced_reply :: pystr where
  "bare_fenced_reply = py ''```
{}
```''"

definition fenced :: "pystr \<Rightarrow> pystr" where
  "fenced t = py ''```json'' @ t @ py ''```''"

definition backtick_reply :: pystr where
  \<open>backtick_reply = py ''{"a":"```"}''\<close>


section \<open>Evaluation of the examples\<close>

lemmas loads_defs = json_loads_def py_def startswith_def skip_ws_def json_ws_def match_number_def
  match_integer_def match_frac_def match_exp_def is_digit_def dict_of_def int_of_text_def
  digits_value_def decode_uXXXX_def hex_digit_def backslash_def

lemmas reply_defs = decode_reply_def remove_code_blocks_def strip_def isspace_def replace_def

lemma decode_good_fit: "decode_reply (Inr [TextBlock good_fit_reply]) = Inr (Success (fit_record True 82))"
  by (simp add: good_fit_reply_def fit_record_def reply_defs loads_defs)

lemma decode_poor_fit: "decode_reply (Inr [TextBlock poor_fit_reply]) = Inr (Success (fit_record False 20))"
  by (simp add: poor_fit_reply_def fit_record_def reply_defs loads_defs)

lemma decode_pain: "decode_reply (Inr [TextBlock pain_reply]) = Inr (Success pain_record)"
  by (simp add: pain_reply_def pain_record_def reply_defs loads_defs)

lemma decode_oops: "decode_reply (Inr [TextBlock (py ''oops'')]) = Inl (JSONDecodeError Expecting_value)"
  by (simp add: reply_defs loads_defs)

lemma show_fit_record:
  "show_fit (fit_record good score) = Inr (JBool good, JStr (py ''...''), JStr (py ''Software''))"
  by (simp add: show_fit_def fit_record_def py_def)

lemma decode_string_false:
  "decode_reply (Inr [TextBlock string_false_reply]) = Inr (Success string_false_record)"
  by (simp add: string_false_reply_def string_false_record_def reply_defs loads_defs)

lemma show_fit_string_false:
  "show_fit string_false_record = Inr (JStr (py ''false''), JStr (py ''...''), JStr (py ''Software''))"
  by (simp add: show_fit_def string_false_record_def py_def)

lemmas statement_defs = pain_statements_def pain_point_statements_def solution_statements_def
  talking_point_statement_def next_step_statements_def fit_statements_def footer_statements_def
  report_statements_def for_loop_def after_def

lemma show_pain_example: "show_pain example_lib pain_record = Inr ()"
  by (simp add: show_pain_def story_of_def statement_defs pain_record_def
        example_lib_def py_def enumerate_eq_zip)

lemma poor_fit_export:
  "generate_pdf_report example_lib (py ''Acme SaaS'') (fit_record False 20) None = Inr (py ''%PDF'')"
  by (simp add: generate_pdf_report_def statement_defs fit_record_def construct_def
        example_lib_def example_paragraph_raises_def py_def)

lemma good_fit_run:
  "analysis_history (snd (analyze_click (scripted good_fit_reply pain_reply) example_lib
      example_click initial_world)) = [saved_analysis]"
  by (simp add: analyze_click_def second_step_def analyze_company_fit_def
        generate_pain_point_analysis_def
        messages_create_def scripted_def example_click_def initial_world_def
        decode_good_fit decode_pain show_fit_record show_pain_example append_history_def
        saved_analysis_def)
     (simp add: example_lib_def py_def)

lemma string_false_run:
  "analysis_history (snd (analyze_click (scripted string_false_reply pain_reply) example_lib
      example_click initial_world)) =
     [\<lparr>timestamp = py ''2025-01-01'', company_name = py ''Acme SaaS'',
       fit_data = string_false_record, pain_data = Some pain_record\<rparr>]"
  by (simp add: analyze_click_def second_step_def analyze_company_fit_def
        generate_pain_point_analysis_def
        messages_create_def scripted_def example_click_def initial_world_def
        decode_string_false decode_pain show_fit_string_false show_pain_example
        append_history_def)
     (simp add: example_lib_def py_def)

lemma decode_backtick_reply:
  "decode_reply (Inr [TextBlock backtick_reply]) = Inr (Success (JObj [(py ''a'', JStr (py ''```''))]))"
  by (simp add: backtick_reply_def reply_defs loads_defs)

lemma decode_fenced_backtick_reply:
  "decode_reply (Inr [TextBlock (fenced backtick_reply)]) = Inr (Success (JObj [(py ''a'', JStr [])]))"
  by (simp add: backtick_reply_def fenced_def reply_defs loads_defs)

section \<open>The history\<close>

lemma fold_append_history:
  "analysis_history (fold append_history rs w) = analysis_history w @ rs"
  by (induction rs arbitrary: w) (simp_all add: append_history_def)

text \<open>
  Claim C7.  Whatever records are appended to the history, one after the other, the
  history tab runs over them in the exact reverse order of appending (and before the
  records that were there already, themselves reversed): after R1, R2 and R3 are appended
  to an empty history, the tab shows R3, R2, R1.
\<close>

theorem history_reverse_chronological:
  "map snd (history_tab (analysis_history (fold append_history rs w)))
     = rev rs @ rev (analysis_history w)"
  by (simp add: history_tab_def fold_append_history)

text \<open>
  Claim C1.  A run that ends in partial success is not saved.  With a poor-fit reply
  the run ends at the warning with its export, and with a good fit followed by a reply
  that does not parse it ends at the error of the second stage; in both runs the history
  is as empty as before.  Only the branch that shows the full pain analysis appends.
\<close>

theorem unsaved_partial_success:
  "(\<exists>export. fst (analyze_click (scripted poor_fit_reply pain_reply) example_lib example_click
                    initial_world) = PoorFit (Inr export)) \<and>
   analysis_history (snd (analyze_click (scripted poor_fit_reply pain_reply) example_lib
                      example_click initial_world)) = [] \<and>
   fst (analyze_click (scripted good_fit_reply (py ''oops'')) example_lib example_click
          initial_world) = PainError (JSONDecodeError Expecting_value) \<and>
   analysis_history (snd (analyze_click (scripted good_fit_reply (py ''oops'')) example_lib
                      example_click initial_world)) = []"
  by (simp add: analyze_click_def second_step_def analyze_company_fit_def
        generate_pain_point_analysis_def poor_fit_export
        messages_create_def scripted_def example_click_def initial_world_def
        decode_poor_fit decode_good_fit decode_oops show_fit_record)
     (simp add: py_def)

section \<open>The stages never raise\<close>

lemma decode_reply_Inr: "decode_reply reply = Inr r \<Longrightarrow> \<exists>d. r = Success d"
  unfolding decode_reply_def
  by (cases reply; simp; cases "response_text_of (projr reply)"; simp;
      cases "json_loads (remove_code_blocks (projr (response_text_of (projr reply))))"; auto)

lemma decode_reply_caught:
  "(\<exists>d. try_except (decode_reply reply) (\<lambda>e. Inr (Failure e)) = Inr (Success d)) \<or>
   (\<exists>e. try_except (decode_reply reply) (\<lambda>e. Inr (Failure e)) = Inr (Failure e))"
proof (cases "decode_reply reply")
  case (Inl e)
  then show ?thesis by simp
next
  case (Inr r)
  with decode_reply_Inr[OF Inr] show ?thesis by auto
qed

text \<open>
  Claim C3.  For every input and every behaviour of the provider, each of the two stage
  functions returns a dict: either success with the parsed record or failure with the
  error.  No exception of the provider call, of reading the reply or of parsing leaves
  the function (the result is never \<open>Inl\<close>); building the prompt from strings does not
  raise.
\<close>

theorem stages_return_a_result:
  "((\<exists>d. fst (analyze_company_fit p n ss ti sv k log) = Inr (Success d)) \<or>
    (\<exists>e. fst (analyze_company_fit p n ss ti sv k log) = Inr (Failure e))) \<and>
   ((\<exists>d. fst (generate_pain_point_analysis p n ov ind sv k log) = Inr (Success d)) \<or>
    (\<exists>e. fst (generate_pain_point_analysis p n ov ind sv k log) = Inr (Failure e)))"
  by (simp add: analyze_company_fit_def generate_pain_point_analysis_def messages_create_def
        Let_def decode_reply_caught)

section \<open>The code fence\<close>

lemma json_loads_backtick: "json_loads (96 # cs) = Inl (JSONDecodeError Expecting_value)"
  by (simp add: json_loads_def py_def startswith_def skip_ws_def json_ws_def match_number_def
        match_integer_def is_digit_def)

lemma startswith_fence: "startswith s (py ''```'') \<Longrightarrow> \<exists>cs. s = 96 # cs"
  by (cases s) (auto simp: startswith_def py_def)

lemma decode_bare_fence:
  assumes "startswith (strip t) (py ''```'')" and "\<not> startswith (strip t) (py ''```json'')"
  shows "decode_reply (Inr (TextBlock t # bs)) = Inl (JSONDecodeError Expecting_value)"
proof -
  from startswith_fence[OF assms(1)] obtain cs where "strip t = 96 # cs" ..
  with assms(2) show ?thesis
    by (simp add: decode_reply_def remove_code_blocks_def json_loads_backtick)
qed

text \<open>
  Claim C9.  When the reply, stripped, begins with the bare fence and not with the json
  fence, nothing is removed from it, the decoder meets the backtick first, and both
  stages return failure, whatever stands inside the fence.
\<close>

theorem bare_fence_is_not_stripped:
  assumes "\<And>req. p log req = Inr (TextBlock t # bs)"
    and "startswith (strip t) (py ''```'')"
    and "\<not> startswith (strip t) (py ''```json'')"
  shows "remove_code_blocks (strip t) = strip t \<and>
         fst (analyze_company_fit p n ss ti sv k log) = Inr (Failure (JSONDecodeError Expecting_value)) \<and>
         fst (generate_pain_point_analysis p n ov ind sv k log) = Inr (Failure (JSONDecodeError Expecting_value))"
  using assms(3) decode_bare_fence[OF assms(2,3)]
  by (simp add: analyze_company_fit_def generate_pain_point_analysis_def messages_create_def
        Let_def assms(1) remove_code_blocks_def)

text \<open>
  The claim at a reply whose fenced content, \<open>{}\<close>, is valid JSON.
\<close>

theorem bare_fence_is_not_stripped_witness:
  "startswith (strip bare_fenced_reply) (py ''```'') \<and>
   \<not> startswith (strip bare_fenced_reply) (py ''```json'') \<and>
   remove_code_blocks (strip bare_fenced_reply) = strip bare_fenced_reply \<and>
   fst (analyze_company_fit (\<lambda>log req. Inr [TextBlock bare_fenced_reply]) (py ''Acme SaaS'')
          [py ''Technology''] [py ''SaaS''] (py ''AI'') (py ''key'') [])
     = Inr (Failure (JSONDecodeError Expecting_value)) \<and>
   fst (generate_pain_point_analysis (\<lambda>log req. Inr [TextBlock bare_fenced_reply])
          (py ''Acme SaaS'') (JStr (py ''...'')) (JStr (py ''Software'')) (py ''AI'') (py ''key'') [])
     = Inr (Failure (JSONDecodeError Expecting_value))"
proof -
  have h1: "startswith (strip bare_fenced_reply) (py ''```'')"
    by (simp add: bare_fenced_reply_def strip_def isspace_def startswith_def py_def)
  have h2: "\<not> startswith (strip bare_fenced_reply) (py ''```json'')"
    by (simp add: bare_fenced_reply_def strip_def isspace_def startswith_def py_def)
  have h0: "\<And>req. (\<lambda>log req. Inr [TextBlock bare_fenced_reply]) ([]::request list) (req::request)
               = (Inr (TextBlock bare_fenced_reply # []) :: exn + message)"
    by simp
  from bare_fence_is_not_stripped[of "\<lambda>log req. Inr [TextBlock bare_fenced_reply]" "[]"
         bare_fenced_reply "[]", OF h0 h1 h2] h1 h2
  show ?thesis by blast
qed

text \<open>
  Claim C2.  A reply and the same reply inside the json fence do not always parse to the
  same record: a fence marker inside a JSON string is deleted together with the fence,
  so the string of three backticks comes back empty.
\<close>

theorem fenced_reply_parses_differently:
  "fst (analyze_company_fit (\<lambda>log req. Inr [TextBlock backtick_reply]) n ss ti sv k log)
     = Inr (Success (JObj [(py ''a'', JStr (py ''```''))])) \<and>
   fst (analyze_company_fit (\<lambda>log req. Inr [TextBlock (fenced backtick_reply)]) n ss ti sv k log)
     = Inr (Success (JObj [(py ''a'', JStr [])])) \<and>
   fst (generate_pain_point_analysis (\<lambda>log req. Inr [TextBlock backtick_reply]) n ov ind sv k log)
     = Inr (Success (JObj [(py ''a'', JStr (py ''```''))])) \<and>
   fst (generate_pain_point_analysis (\<lambda>log req. Inr [TextBlock (fenced backtick_reply)]) n ov ind sv k log)
     = Inr (Success (JObj [(py ''a'', JStr [])]))"
  by (simp add: analyze_company_fit_def generate_pain_point_analysis_def messages_create_def
        decode_backtick_reply decode_fenced_backtick_reply)

text \<open>
  Claim C8.  The fence handling does not leave the interior of the reply alone: in the
  reply with the json fence around \<open>{"a":"```"}\<close> the two \<open>replace\<close> calls delete the
  leading and the trailing marker and also the three backticks inside the JSON string, so
  the text that goes to the decoder is \<open>{"a":""}\<close> and not the enclosed text.
\<close>

theorem interior_marker_is_deleted:
  \<open>strip (fenced backtick_reply) = fenced backtick_reply \<and>
   startswith (fenced backtick_reply) (py ''```json'') \<and>
   remove_code_blocks (strip (fenced backtick_reply)) = py ''{"a":""}'' \<and>
   py ''{"a":""}'' \<noteq> backtick_reply\<close>
  by (simp add: backtick_reply_def fenced_def reply_defs py_def startswith_def)

section \<open>The pipeline\<close>

lemma show_fit_is_good_fit:
  "show_fit fd = Inr (g, ov, ind) \<Longrightarrow> subscript fd (py ''is_good_fit'') = Inr g"
  unfolding show_fit_def
  by (cases "subscript fd (py ''fit_score'')"; simp;
      cases "subscript fd (py ''industry'')"; simp;
      cases "subscript fd (py ''is_good_fit'')"; simp;
      cases "subscript fd (py ''brief_company_overview'')"; simp;
      cases "subscript fd (py ''fit_reasoning'')"; simp)

lemma analyze_company_fit_calls:
  "snd (analyze_company_fit p n ss ti sv k log) =
     log @ [\<lparr>api_key = k, model = ''claude-sonnet-4-20250514'', max_tokens = 2000,
             content = FitPrompt n (join (py '', '') ss) (join (py '', '') ti) sv\<rparr>]"
  by (simp add: analyze_company_fit_def messages_create_def Let_def)

text \<open>
  Claim C4.  In a run whose first stage succeeds with an \<open>is_good_fit\<close> that is false
  (or falsy), the provider receives exactly one request, that of the fit stage: the log
  of requests grows by this one entry and the second stage is never asked.
\<close>

theorem poor_fit_makes_one_call:
  assumes "ui_api_key c \<noteq> []" and "ui_company_name c \<noteq> []"
    and "fst (analyze_company_fit p (ui_company_name c) (ui_target_sectors c)
               (ui_target_industries c) (ui_our_services c) (ui_api_key c) (calls w)) = Inr (Success fd)"
    and "subscript fd (py ''is_good_fit'') = Inr v" and "\<not> truthy v"
  shows "calls (snd (analyze_click p lib c w)) =
           calls w @ [\<lparr>api_key = ui_api_key c, model = ''claude-sonnet-4-20250514'',
                       max_tokens = 2000,
                       content = FitPrompt (ui_company_name c) (join (py '', '') (ui_target_sectors c))
                                   (join (py '', '') (ui_target_industries c)) (ui_our_services c)\<rparr>]"
proof -
  let ?r = "analyze_company_fit p (ui_company_name c) (ui_target_sectors c)
               (ui_target_industries c) (ui_our_services c) (ui_api_key c) (calls w)"
  obtain res log where r: "?r = (res, log)" by (cases ?r)
  from r assms(3) have res: "res = Inr (Success fd)" by simp
  from r analyze_company_fit_calls[of p "ui_company_name c" "ui_target_sectors c"
      "ui_target_industries c" "ui_our_services c" "ui_api_key c" "calls w"]
  have log: "log = calls w @ [\<lparr>api_key = ui_api_key c, model = ''claude-sonnet-4-20250514'',
                       max_tokens = 2000,
                       content = FitPrompt (ui_company_name c) (join (py '', '') (ui_target_sectors c))
                                   (join (py '', '') (ui_target_industries c)) (ui_our_services c)\<rparr>]"
    by simp
  show ?thesis
  proof (cases "show_fit fd")
    case (Inl e)
    with assms(1,2) r res log show ?thesis by (simp add: analyze_click_def)
  next
    case (Inr shown)
    obtain g ov ind where shown: "shown = (g, ov, ind)" by (cases shown)
    with Inr show_fit_is_good_fit assms(4) have "g = v" by fastforce
    with assms(1,2,5) r res log Inr shown show ?thesis
      by (simp add: analyze_click_def second_step_def)
  qed
qed

text \<open>
  The claim at the example run with the poor-fit reply.
\<close>

theorem poor_fit_makes_one_call_witness:
  "ui_api_key example_click \<noteq> [] \<and> ui_company_name example_click \<noteq> [] \<and>
   fst (analyze_company_fit (scripted poor_fit_reply pain_reply) (ui_company_name example_click)
          (ui_target_sectors example_click) (ui_target_industries example_click)
          (ui_our_services example_click) (ui_api_key example_click) (calls initial_world))
     = Inr (Success (fit_record False 20)) \<and>
   subscript (fit_record False 20) (py ''is_good_fit'') = Inr (JBool False) \<and>
   \<not> truthy (JBool False) \<and>
   calls (snd (analyze_click (scripted poor_fit_reply pain_reply) example_lib example_click
                 initial_world)) =
     [\<lparr>api_key = py ''key'', model = ''claude-sonnet-4-20250514'', max_tokens = 2000,
       content = FitPrompt (py ''Acme SaaS'') (py ''Technology, Retail'') (py ''SaaS'') (py ''AI'')\<rparr>]"
proof -
  have h1: "ui_api_key example_click \<noteq> []" by (simp add: example_click_def py_def)
  have h2: "ui_company_name example_click \<noteq> []" by (simp add: example_click_def py_def)
  have h3: "fst (analyze_company_fit (scripted poor_fit_reply pain_reply)
          (ui_company_name example_click)
          (ui_target_sectors example_click) (ui_target_industries example_click)
          (ui_our_services example_click) (ui_api_key example_click) (calls initial_world))
     = Inr (Success (fit_record False 20))"
    by (simp add: analyze_company_fit_def messages_create_def scripted_def decode_poor_fit)
  have h4: "subscript (fit_record False 20) (py ''is_good_fit'') = Inr (JBool False)"
    by (simp add: fit_record_def py_def)
  have h5: "\<not> truthy (JBool False)" by simp
  from poor_fit_makes_one_call[OF h1 h2 h3 h4 h5, of example_lib] h1 h2 h3 h4 h5
  show ?thesis by (simp add: example_click_def initial_world_def py_def)
qed

lemma second_step_invariant:
  assumes "\<forall>a\<in>set (analysis_history w). truthy_fit_when_pain a"
    and "show_fit fd = Inr shown"
  shows "\<forall>a\<in>set (analysis_history (snd (second_step p lib c fd shown w))). truthy_fit_when_pain a"
proof -
  obtain g ov ind where shown: "shown = (g, ov, ind)" by (cases shown)
  with assms(2) have g: "subscript fd (py ''is_good_fit'') = Inr g"
    by (simp add: show_fit_is_good_fit)
  show ?thesis
    using assms(1) g shown
    by (auto simp: second_step_def append_history_def truthy_fit_when_pain_def
          split: prod.splits sum.splits result.splits)
qed

lemma analyze_click_invariant:
  assumes "\<forall>a\<in>set (analysis_history w). truthy_fit_when_pain a"
  shows "\<forall>a\<in>set (analysis_history (snd (analyze_click p lib c w))). truthy_fit_when_pain a"
  using assms second_step_invariant[where w = "w\<lparr>calls := log\<rparr>" for log]
  by (auto simp: analyze_click_def split: prod.splits sum.splits result.splits)

lemma session_invariant:
  "\<forall>a\<in>set (analysis_history w). truthy_fit_when_pain a \<Longrightarrow>
   \<forall>a\<in>set (analysis_history (session p clicks w)). truthy_fit_when_pain a"
proof (induction clicks arbitrary: w)
  case Nil
  then show ?case by simp
next
  case (Cons lc clicks)
  have "\<forall>a\<in>set (analysis_history (snd (analyze_click p (fst lc) (snd lc) w))). truthy_fit_when_pain a"
    by (rule analyze_click_invariant[OF Cons.prems])
  then show ?case using Cons.IH by simp
qed

text \<open>
  Claim C6, as amended.  After any sequence of presses of the button, starting from the
  empty history, every record of the history that holds a pain analysis holds a fit
  assessment whose \<open>is_good_fit\<close> is there and is truthy for Python's \<open>if\<close>, the test of
  line 450; it is never \<open>false\<close>.
\<close>

theorem pain_only_with_truthy_fit:
  "\<forall>a\<in>set (analysis_history (session p clicks initial_world)).
     \<forall>pd. pain_data a = Some pd \<longrightarrow>
       (\<exists>v. subscript (fit_data a) (py ''is_good_fit'') = Inr v \<and> truthy v \<and> v \<noteq> JBool False)"
proof
  fix a
  assume "a \<in> set (analysis_history (session p clicks initial_world))"
  moreover have "\<forall>a\<in>set (analysis_history (session p clicks initial_world)). truthy_fit_when_pain a"
    by (rule session_invariant) (simp add: initial_world_def)
  ultimately have "truthy_fit_when_pain a" by blast
  then show "\<forall>pd. pain_data a = Some pd \<longrightarrow>
       (\<exists>v. subscript (fit_data a) (py ''is_good_fit'') = Inr v \<and> truthy v \<and> v \<noteq> JBool False)"
    by (auto simp: truthy_fit_when_pain_def split: sum.splits option.splits)
qed

text \<open>
  The amended claim at the session of one run with a good fit: its one record has the
  pain analysis and \<open>is_good_fit\<close> true.
\<close>

theorem pain_only_with_truthy_fit_witness:
  "saved_analysis \<in> set (analysis_history (session (scripted good_fit_reply pain_reply)
      [(example_lib, example_click)] initial_world)) \<and>
   pain_data saved_analysis = Some pain_record \<and>
   subscript (fit_data saved_analysis) (py ''is_good_fit'') = Inr (JBool True) \<and>
   truthy (JBool True) \<and> JBool True \<noteq> JBool False"
proof -
  have h: "saved_analysis \<in> set (analysis_history (session (scripted good_fit_reply pain_reply)
      [(example_lib, example_click)] initial_world))"
    by (simp add: good_fit_run)
  have p: "pain_data saved_analysis = Some pain_record" by (simp add: saved_analysis_def)
  have s: "subscript (fit_data saved_analysis) (py ''is_good_fit'') = Inr (JBool True)"
    by (simp add: saved_analysis_def fit_record_def py_def)
  from pain_only_with_truthy_fit[of "scripted good_fit_reply pain_reply"
        "[(example_lib, example_click)]"] h p
  have "\<exists>v. subscript (fit_data saved_analysis) (py ''is_good_fit'') = Inr v \<and> truthy v \<and>
          v \<noteq> JBool False"
    by blast
  with s have "truthy (JBool True) \<and> JBool True \<noteq> JBool False" by simp
  with h p s show ?thesis by blast
qed

text \<open>
  The claim as first stated fails.  The provider answers the first stage with a record
  whose \<open>is_good_fit\<close> is the string \<open>false\<close>; the string is not empty, line 450 lets it
  pass, the second stage runs and the record is saved with its pain analysis, though its
  \<open>is_good_fit\<close> is not \<open>true\<close>.
\<close>

theorem string_false_is_saved_with_pain:
  "analysis_history (session (scripted string_false_reply pain_reply)
      [(example_lib, example_click)] initial_world) =
     [\<lparr>timestamp = py ''2025-01-01'', company_name = py ''Acme SaaS'',
       fit_data = string_false_record, pain_data = Some pain_record\<rparr>] \<and>
   subscript string_false_record (py ''is_good_fit'') = Inr (JStr (py ''false'')) \<and>
   subscript string_false_record (py ''is_good_fit'') \<noteq> Inr (JBool True)"
  by (simp add: string_false_run) (simp add: string_false_record_def py_def)

section \<open>The report\<close>




































end
